theory Spec2Isabelle
  imports Complex_Main "HOL-Library.Mapping" "HOL-Library.AList_Mapping"
begin

section \<open>The watchdog manager of patroni/watchdog/base.py\<close>

text \<open>
  A shallow embedding of \<^verbatim>\<open>WatchdogConfig\<close>, \<^verbatim>\<open>NullWatchdog\<close> and the
  \<^verbatim>\<open>Watchdog\<close> facade. The concrete device classes (the Linux and the testing
  device) and \<^verbatim>\<open>platform.system()\<close> are not part of the file; they are a
  parameter of the model (the record \<open>platform\<close> below). Every method that the abstract
  class \<^verbatim>\<open>WatchdogBase\<close> allows to raise \<^verbatim>\<open>WatchdogError\<close> is modelled as
  fallible, and a call that raises may still have changed the device.
  The reentrant lock serialises the public methods; the model is sequential.
  A snapshot is taken as \<^verbatim>\<open>WatchdogConfig.__init__\<close> builds it, with its mode already
  parsed into one of the three constants.
\<close>

subsection \<open>Configuration snapshot\<close>

datatype mode = MODE_REQUIRED | MODE_AUTOMATIC | MODE_OFF

type_synonym driver_config = "(string, string) mapping"

record WatchdogConfig =
  mode :: mode
  ttl :: int
  loop_wait :: int
  safety_margin :: int
  driver :: string
  driver_config :: driver_config

text \<open>\<^verbatim>\<open>__eq__\<close> compares the six attributes; \<^verbatim>\<open>__ne__\<close> is its negation.\<close>

definition config_eq :: "WatchdogConfig \<Rightarrow> WatchdogConfig \<Rightarrow> bool" where
  "config_eq a b \<longleftrightarrow>
     mode a = mode b \<and> ttl a = ttl b \<and> loop_wait a = loop_wait b \<and>
     safety_margin a = safety_margin b \<and> driver a = driver b \<and>
     driver_config a = driver_config b"

definition config_ne :: "WatchdogConfig \<Rightarrow> WatchdogConfig \<Rightarrow> bool" where
  "config_ne a b \<longleftrightarrow> \<not> config_eq a b"

text \<open>The property \<^verbatim>\<open>timeout\<close>: Python's \<^verbatim>\<open>//\<close> on integers is floor division, as is
  \<open>div\<close> on \<open>int\<close>.\<close>

definition timeout :: "WatchdogConfig \<Rightarrow> int" where
  "timeout c = (if safety_margin c = - 1 then ttl c div 2 else ttl c - safety_margin c)"

definition timing_slack :: "WatchdogConfig \<Rightarrow> int" where
  "timing_slack c = timeout c - loop_wait c"

subsection \<open>Devices\<close>

datatype WatchdogError = WatchdogError string

text \<open>The owned implementation is the null device or a device of the platform with
  its internal state \<open>'d\<close>.\<close>

datatype 'd impl = NullWatchdog | Device 'd

text \<open>
  What the file leaves to its environment: the methods of the concrete device classes,
  whether \<^verbatim>\<open>platform.system()\<close> is \<^verbatim>\<open>'Linux'\<close>, and the two \<^verbatim>\<open>from_config\<close>
  constructors. A method that mutates returns the new device state together with the
  error it raised, if any.
\<close>

record 'd platform =
  dev_is_running :: "'d \<Rightarrow> bool"
  dev_is_healthy :: "'d \<Rightarrow> bool"
  dev_can_be_disabled :: "'d \<Rightarrow> WatchdogError + bool"
  dev_open :: "'d \<Rightarrow> WatchdogError option \<times> 'd"
  dev_close :: "'d \<Rightarrow> WatchdogError option \<times> 'd"
  dev_keepalive :: "'d \<Rightarrow> WatchdogError option \<times> 'd"
  dev_get_timeout :: "'d \<Rightarrow> WatchdogError + int"
  dev_has_set_timeout :: "'d \<Rightarrow> bool"
  dev_set_timeout :: "'d \<Rightarrow> int \<Rightarrow> WatchdogError option \<times> 'd"
  dev_describe :: "'d \<Rightarrow> string"
  system_is_linux :: bool
  testing_from_config :: "driver_config \<Rightarrow> 'd"
  linux_from_config :: "driver_config \<Rightarrow> 'd"

definition get_impl :: "'d platform \<Rightarrow> WatchdogConfig \<Rightarrow> 'd impl" where
  "get_impl P c =
     (if driver c = ''testing'' then Device (testing_from_config P (driver_config c))
      else if system_is_linux P \<and> driver c = ''default''
        then Device (linux_from_config P (driver_config c))
      else NullWatchdog)"

fun is_null :: "'d impl \<Rightarrow> bool" where
  "is_null NullWatchdog = True"
| "is_null (Device d) = False"

fun impl_is_running :: "'d platform \<Rightarrow> 'd impl \<Rightarrow> bool" where
  "impl_is_running P NullWatchdog = False"
| "impl_is_running P (Device d) = dev_is_running P d"

fun impl_is_healthy :: "'d platform \<Rightarrow> 'd impl \<Rightarrow> bool" where
  "impl_is_healthy P NullWatchdog = False"
| "impl_is_healthy P (Device d) = dev_is_healthy P d"

fun impl_can_be_disabled :: "'d platform \<Rightarrow> 'd impl \<Rightarrow> WatchdogError + bool" where
  "impl_can_be_disabled P NullWatchdog = Inr True"
| "impl_can_be_disabled P (Device d) = dev_can_be_disabled P d"

fun impl_open :: "'d platform \<Rightarrow> 'd impl \<Rightarrow> WatchdogError option \<times> 'd impl" where
  "impl_open P NullWatchdog = (None, NullWatchdog)"
| "impl_open P (Device d) = (case dev_open P d of (r, d') \<Rightarrow> (r, Device d'))"

fun impl_close :: "'d platform \<Rightarrow> 'd impl \<Rightarrow> WatchdogError option \<times> 'd impl" where
  "impl_close P NullWatchdog = (None, NullWatchdog)"
| "impl_close P (Device d) = (case dev_close P d of (r, d') \<Rightarrow> (r, Device d'))"

fun impl_keepalive :: "'d platform \<Rightarrow> 'd impl \<Rightarrow> WatchdogError option \<times> 'd impl" where
  "impl_keepalive P NullWatchdog = (None, NullWatchdog)"
| "impl_keepalive P (Device d) = (case dev_keepalive P d of (r, d') \<Rightarrow> (r, Device d'))"

fun impl_get_timeout :: "'d platform \<Rightarrow> 'd impl \<Rightarrow> WatchdogError + int" where
  "impl_get_timeout P NullWatchdog = Inr 1000000000"
| "impl_get_timeout P (Device d) = dev_get_timeout P d"

fun impl_has_set_timeout :: "'d platform \<Rightarrow> 'd impl \<Rightarrow> bool" where
  "impl_has_set_timeout P NullWatchdog = False"
| "impl_has_set_timeout P (Device d) = dev_has_set_timeout P d"

fun impl_describe :: "'d platform \<Rightarrow> 'd impl \<Rightarrow> string" where
  "impl_describe P NullWatchdog = ''NullWatchdog''"
| "impl_describe P (Device d) = dev_describe P d"

text \<open>\<^verbatim>\<open>NullWatchdog\<close> inherits \<^verbatim>\<open>set_timeout\<close> from the base class, which raises.\<close>

fun impl_set_timeout :: "'d platform \<Rightarrow> int \<Rightarrow> 'd impl \<Rightarrow> WatchdogError option \<times> 'd impl" where
  "impl_set_timeout P t NullWatchdog =
     (Some (WatchdogError ''Setting timeout is not supported on NullWatchdog''), NullWatchdog)"
| "impl_set_timeout P t (Device d) = (case dev_set_timeout P d t of (r, d') \<Rightarrow> (r, Device d'))"

subsection \<open>Observable effects\<close>

datatype level = DEBUG | INFO | WARNING | ERROR

text \<open>One constructor for each logging call of the file, with the values it formats.\<close>

datatype log_msg =
    SlackNegative int int
  | CouldNotActivate string WatchdogError
  | CantBeDisabled
  | RequiredNotConfigured
  | RequiredUnsafeTimeout int "int option"
  | TimeoutNotSafe "int option" int
  | Activated string "int option" int
  | RequiredNotActivated
  | LoopWaitTooLong int int
  | DisablingUnsafe
  | CantBeDisabledReboot int
  | ErrorDisabling WatchdogError
  | Updated string int int
  | ErrorKeepalive WatchdogError
  | NotSupportedOnPlatform

text \<open>The history of a manager: the log records, the calls of \<^verbatim>\<open>get_impl\<close> and the
  calls of the four mutating device methods, each with the device it was called on.\<close>

datatype 'd event =
    Log level log_msg
  | GetImpl string driver_config
  | DevOpen "'d impl"
  | DevClose "'d impl"
  | DevKeepalive "'d impl"
  | DevSetTimeout "'d impl" int

subsection \<open>Manager state\<close>

text \<open>The four attributes of a \<^verbatim>\<open>Watchdog\<close> object (the lock apart), and its history:
  what the object has done so far, oldest first. The history is not an attribute; no
  method reads it.\<close>

record 'd Watchdog =
  config :: WatchdogConfig
  active_config :: WatchdogConfig
  active :: bool
  impl :: "'d impl"
  trace :: "'d event list"

type_synonym ('d, 'a) action = "'d Watchdog \<Rightarrow> (WatchdogError + 'a) \<times> 'd Watchdog"

text \<open>Sequencing: a raised \<^verbatim>\<open>WatchdogError\<close> skips the rest, the state reached is kept.\<close>

definition then_do :: "('d, 'a) action \<Rightarrow> ('a \<Rightarrow> ('d, 'b) action) \<Rightarrow> ('d, 'b) action" where
  "then_do m f s = (case m s of (Inl e, s') \<Rightarrow> (Inl e, s') | (Inr a, s') \<Rightarrow> f a s')"

definition emit :: "'d event \<Rightarrow> 'd Watchdog \<Rightarrow> 'd Watchdog" where
  "emit e s = s\<lparr>trace := trace s @ [e]\<rparr>"

definition logger :: "level \<Rightarrow> log_msg \<Rightarrow> 'd Watchdog \<Rightarrow> 'd Watchdog" where
  "logger l m s = emit (Log l m) s"

text \<open>A call of a mutating method of \<^verbatim>\<open>self.impl\<close>.\<close>

definition call :: "('d impl \<Rightarrow> 'd event) \<Rightarrow> ('d impl \<Rightarrow> WatchdogError option \<times> 'd impl)
    \<Rightarrow> ('d, unit) action" where
  "call ev m s =
     (case m (impl s) of (r, i') \<Rightarrow>
        ((case r of None \<Rightarrow> Inr () | Some e \<Rightarrow> Inl e), (emit (ev (impl s)) s)\<lparr>impl := i'\<rparr>))"

definition call_open :: "'d platform \<Rightarrow> ('d, unit) action" where
  "call_open P = call DevOpen (impl_open P)"

definition call_close :: "'d platform \<Rightarrow> ('d, unit) action" where
  "call_close P = call DevClose (impl_close P)"

definition call_keepalive :: "'d platform \<Rightarrow> ('d, unit) action" where
  "call_keepalive P = call DevKeepalive (impl_keepalive P)"

definition call_set_timeout :: "'d platform \<Rightarrow> int \<Rightarrow> ('d, unit) action" where
  "call_set_timeout P t = call (\<lambda>i. DevSetTimeout i t) (impl_set_timeout P t)"

text \<open>\<^verbatim>\<open>self.impl = self.config.get_impl()\<close>\<close>

definition select_impl :: "'d platform \<Rightarrow> 'd Watchdog \<Rightarrow> 'd Watchdog" where
  "select_impl P s =
     (emit (GetImpl (driver (config s)) (driver_config (config s))) s)
       \<lparr>impl := get_impl P (config s)\<rparr>"

subsection \<open>The manager's private methods\<close>

text \<open>\<^verbatim>\<open>_set_timeout\<close> (the names of the private methods carry the prefix \<open>u_\<close> for the
  leading underscore). It returns \<^verbatim>\<open>None\<close> after it closed a device whose timeout is
  shorter than \<^verbatim>\<open>loop_wait\<close>.\<close>

definition u_set_timeout :: "'d platform \<Rightarrow> ('d, int option) action" where
  "u_set_timeout P =
     then_do (\<lambda>s. if impl_has_set_timeout P (impl s)
                   then call_set_timeout P (timeout (config s)) s else (Inr (), s))
     (\<lambda>_. then_do (\<lambda>s. (impl_get_timeout P (impl s), s))
     (\<lambda>actual_timeout s.
        if impl_is_running P (impl s) \<and> actual_timeout < loop_wait (config s) then
          then_do (\<lambda>s. (impl_can_be_disabled P (impl s),
                         logger ERROR (LoopWaitTooLong (loop_wait (config s)) actual_timeout) s))
          (\<lambda>can_be_disabled s.
             if can_be_disabled then
               then_do (call_close P) (\<lambda>_ s. (Inr None, s\<lparr>impl := NullWatchdog\<rparr>))
                 (logger INFO DisablingUnsafe s)
             else (Inr (Some actual_timeout), s)) s
        else (Inr (Some actual_timeout), s)))"

text \<open>Lines 132 to 146 of \<^verbatim>\<open>_activate\<close>: the assignment of \<^verbatim>\<open>active_config\<close>, the
  timing-slack gate and the \<^verbatim>\<open>try\<close> statement. The value is \<^verbatim>\<open>actual_timeout\<close>.\<close>

definition activate_open :: "'d platform \<Rightarrow> ('d, int option) action" where
  "activate_open P s0 =
     (let s1 = s0\<lparr>active_config := config s0\<rparr>;
          s2 = (if timing_slack (config s1) < 0
                then (logger WARNING (SlackNegative (ttl (config s1)) (loop_wait (config s1))) s1)
                       \<lparr>impl := NullWatchdog\<rparr>
                else s1)
      in case then_do (call_open P) (\<lambda>_. u_set_timeout P) s2 of
           (Inr actual_timeout, s3) \<Rightarrow> (Inr actual_timeout, s3)
         | (Inl e, s3) \<Rightarrow>
             (let s4 = (logger (if mode (config s3) = MODE_REQUIRED then WARNING else DEBUG)
                          (CouldNotActivate (impl_describe P (impl s3)) e) s3)
                         \<lparr>impl := NullWatchdog\<rparr>
              in then_do (\<lambda>s. (impl_get_timeout P (impl s), s)) (\<lambda>t s. (Inr (Some t), s)) s4))"

text \<open>\<^verbatim>\<open>actual_timeout and actual_timeout > self.config.timeout\<close>: \<^verbatim>\<open>None\<close> and \<^verbatim>\<open>0\<close>
  are false in Python.\<close>

definition set_and_exceeds :: "int option \<Rightarrow> int \<Rightarrow> bool" where
  "set_and_exceeds actual_timeout t =
     (case actual_timeout of None \<Rightarrow> False | Some a \<Rightarrow> a \<noteq> 0 \<and> a > t)"

text \<open>Lines 152 to 174 of \<^verbatim>\<open>_activate\<close>.\<close>

definition activate_verdict :: "'d platform \<Rightarrow> int option \<Rightarrow> ('d, bool) action" where
  "activate_verdict P actual_timeout s =
     (let unsafe = (\<not> impl_is_running P (impl s)
                     \<or> set_and_exceeds actual_timeout (timeout (config s)))
      in if unsafe \<and> mode (config s) = MODE_REQUIRED then
           (Inr False,
            logger ERROR (if is_null (impl s) then RequiredNotConfigured
                       else RequiredUnsafeTimeout (timeout (config s)) actual_timeout) s)
         else
           (let s1 = (if unsafe \<and> \<not> is_null (impl s)
                      then logger WARNING (TimeoutNotSafe actual_timeout (timeout (config s))) s
                      else s)
            in if impl_is_running P (impl s1) then
                 (Inr True,
                  logger INFO (Activated (impl_describe P (impl s1)) actual_timeout
                              (timing_slack (config s1))) s1)
               else if mode (config s1) = MODE_REQUIRED then
                 (Inr False, logger ERROR RequiredNotActivated s1)
               else (Inr True, s1)))"

text \<open>\<^verbatim>\<open>_activate\<close>. Line 148 reads \<^verbatim>\<open>can_be_disabled\<close> outside the \<^verbatim>\<open>try\<close>
  statement, and only of a running device.\<close>

definition u_activate :: "'d platform \<Rightarrow> ('d, bool) action" where
  "u_activate P =
     then_do (activate_open P)
     (\<lambda>actual_timeout.
        then_do (\<lambda>s. if impl_is_running P (impl s)
                      then then_do (\<lambda>s. (impl_can_be_disabled P (impl s), s))
                             (\<lambda>can_be_disabled s.
                                (Inr (), if \<not> can_be_disabled then logger WARNING CantBeDisabled s
                                         else s)) s
                      else (Inr (), s))
        (\<lambda>_. activate_verdict P actual_timeout))"

text \<open>The body of the \<^verbatim>\<open>try\<close> statement of \<^verbatim>\<open>_disable\<close>. The arguments of the
  warning are evaluated before it is logged, so a failing \<^verbatim>\<open>get_timeout\<close> skips both
  the warning and the close.\<close>

definition disable_body :: "'d platform \<Rightarrow> ('d, unit) action" where
  "disable_body P =
     then_do (\<lambda>s. if impl_is_running P (impl s)
                   then then_do (\<lambda>s. (impl_can_be_disabled P (impl s), s))
                          (\<lambda>can_be_disabled s.
                             if \<not> can_be_disabled then
                               then_do (call_keepalive P)
                               (\<lambda>_. then_do (\<lambda>s. (impl_get_timeout P (impl s), s))
                               (\<lambda>t s. (Inr (), logger WARNING (CantBeDisabledReboot t) s))) s
                             else (Inr (), s)) s
                   else (Inr (), s))
     (\<lambda>_. call_close P)"

definition u_disable :: "'d platform \<Rightarrow> ('d, unit) action" where
  "u_disable P s =
     (case disable_body P s of
        (Inl e, s') \<Rightarrow> (Inr (), logger ERROR (ErrorDisabling e) s')
      | (Inr _, s') \<Rightarrow> (Inr (), s'))"

subsection \<open>The manager's public methods\<close>

text \<open>\<^verbatim>\<open>__init__\<close>, given the snapshot \<^verbatim>\<open>WatchdogConfig(config)\<close>. \<^verbatim>\<open>sys.exit(1)\<close>
  ends the constructor with the exit status; the history up to there is kept.\<close>

datatype 'd constructed = Returned "'d Watchdog" | SystemExit int "'d event list"

definition Watchdog_init :: "'d platform \<Rightarrow> WatchdogConfig \<Rightarrow> 'd constructed" where
  "Watchdog_init P c =
     (let s = \<lparr>config = c, active_config = c, active = False, impl = NullWatchdog, trace = []\<rparr>
      in if mode (config s) = MODE_OFF then Returned (s\<lparr>impl := NullWatchdog\<rparr>)
         else (let s1 = select_impl P s
               in if mode (config s1) = MODE_REQUIRED \<and> is_null (impl s1)
                  then SystemExit 1 (trace (logger ERROR NotSupportedOnPlatform s1))
                  else Returned s1))"

definition driver_changed :: "'d Watchdog \<Rightarrow> bool" where
  "driver_changed s \<longleftrightarrow>
     driver (config s) \<noteq> driver (active_config s) \<or>
     driver_config (config s) \<noteq> driver_config (active_config s)"

text \<open>\<^verbatim>\<open>reload_config\<close>, given the snapshot built from the new configuration.\<close>

definition reload_config :: "'d platform \<Rightarrow> WatchdogConfig \<Rightarrow> ('d, unit) action" where
  "reload_config P new s0 =
     then_do (\<lambda>s. if mode (config s) = MODE_OFF then
                     then_do (\<lambda>s. if active s then u_disable P s else (Inr (), s))
                     (\<lambda>_ s. (Inr (), s\<lparr>active_config := config s, impl := NullWatchdog\<rparr>)) s
                   else (Inr (), s))
     (\<lambda>_ s. if \<not> active s then
               (Inr (), (if driver_changed s then select_impl P s else s)
                          \<lparr>active_config := config s\<rparr>)
             else (Inr (), s))
     (s0\<lparr>config := new\<rparr>)"

definition activate :: "'d platform \<Rightarrow> ('d, bool) action" where
  "activate P s = u_activate P (s\<lparr>active := True\<rparr>)"

definition disable :: "'d platform \<Rightarrow> ('d, unit) action" where
  "disable P = then_do (u_disable P) (\<lambda>_ s. (Inr (), s\<lparr>active := False\<rparr>))"

text \<open>The three conditions of the reconciliation in \<^verbatim>\<open>keepalive\<close>, each read in the
  state in which the method evaluates it, and the three branches they guard.\<close>

definition mode_switched_on :: "'d Watchdog \<Rightarrow> bool" where
  "mode_switched_on s \<longleftrightarrow> mode (config s) \<noteq> MODE_OFF \<and> mode (active_config s) = MODE_OFF"

definition timeout_changed :: "'d Watchdog \<Rightarrow> bool" where
  "timeout_changed s \<longleftrightarrow> timeout (config s) \<noteq> timeout (active_config s)"

definition mode_branch :: "'d platform \<Rightarrow> ('d, unit) action" where
  "mode_branch P s =
     (if mode_switched_on s
      then then_do (u_activate P) (\<lambda>_ s. (Inr (), s)) (select_impl P s)
      else (Inr (), s))"

definition driver_branch :: "'d platform \<Rightarrow> ('d, unit) action" where
  "driver_branch P s =
     (if driver_changed s
      then then_do (u_disable P)
           (\<lambda>_ s. then_do (u_activate P) (\<lambda>_ s. (Inr (), s)) (select_impl P s)) s
      else (Inr (), s))"

definition timeout_branch :: "'d platform \<Rightarrow> ('d, unit) action" where
  "timeout_branch P s =
     (if timeout_changed s
      then then_do (call_set_timeout P (timeout (config s)))
           (\<lambda>_ s. if impl_is_running P (impl s)
                   then then_do (\<lambda>s. (impl_get_timeout P (impl s), s))
                        (\<lambda>t s. (Inr (), logger INFO (Updated (impl_describe P (impl s)) t
                                                     (timing_slack (config s))) s)) s
                   else (Inr (), s)) s
      else (Inr (), s))"

definition reconcile :: "'d platform \<Rightarrow> ('d, unit) action" where
  "reconcile P =
     then_do (mode_branch P) (\<lambda>_. then_do (driver_branch P) (\<lambda>_. then_do (timeout_branch P)
       (\<lambda>_ s. (Inr (), s\<lparr>active_config := config s\<rparr>))))"

text \<open>The body of the \<^verbatim>\<open>try\<close> statement of \<^verbatim>\<open>keepalive\<close>.\<close>

definition keepalive_body :: "'d platform \<Rightarrow> ('d, unit) action" where
  "keepalive_body P =
     then_do (\<lambda>s. if active s then call_keepalive P s else (Inr (), s))
     (\<lambda>_ s. if active s \<and> config_ne (config s) (active_config s)
             then reconcile P s else (Inr (), s))"

definition keepalive :: "'d platform \<Rightarrow> ('d, unit) action" where
  "keepalive P s =
     (case keepalive_body P s of
        (Inl e, s') \<Rightarrow> (Inr (), logger ERROR (ErrorKeepalive e) s')
      | (Inr _, s') \<Rightarrow> (Inr (), s'))"

definition is_running :: "'d platform \<Rightarrow> 'd Watchdog \<Rightarrow> bool" where
  "is_running P s = impl_is_running P (impl s)"

definition is_healthy :: "'d platform \<Rightarrow> 'd Watchdog \<Rightarrow> bool" where
  "is_healthy P s =
     (if mode (config s) \<noteq> MODE_REQUIRED then True
      else timing_slack (config s) \<ge> 0 \<and> impl_is_healthy P (impl s))"

subsection \<open>A sample platform\<close>

text \<open>A device that keeps the contract of \<^verbatim>\<open>WatchdogBase\<close>, for evaluating the manager
  on concrete inputs: it is running while open, its timeout can be set, and it stops
  when closed. Its keepalive fails when the device is not open.\<close>

record sample_dev =
  is_open :: bool
  seconds :: int

definition sample_platform :: "sample_dev platform" where
  "sample_platform =
     \<lparr>dev_is_running = is_open,
      dev_is_healthy = (\<lambda>d. True),
      dev_can_be_disabled = (\<lambda>d. Inr True),
      dev_open = (\<lambda>d. (None, d\<lparr>is_open := True\<rparr>)),
      dev_close = (\<lambda>d. (None, d\<lparr>is_open := False\<rparr>)),
      dev_keepalive = (\<lambda>d. (if is_open d then None
                              else Some (WatchdogError ''not open''), d)),
      dev_get_timeout = (\<lambda>d. Inr (seconds d)),
      dev_has_set_timeout = (\<lambda>d. True),
      dev_set_timeout = (\<lambda>d t. (None, d\<lparr>seconds := t\<rparr>)),
      dev_describe = (\<lambda>d. ''sample''),
      system_is_linux = True,
      testing_from_config = (\<lambda>c. \<lparr>is_open = False, seconds = 10\<rparr>),
      linux_from_config = (\<lambda>c. \<lparr>is_open = False, seconds = 60\<rparr>)\<rparr>"

definition sample_config :: WatchdogConfig where
  "sample_config =
     \<lparr>mode = MODE_AUTOMATIC, ttl = 30, loop_wait = 10, safety_margin = 5,
      driver = ''default'', driver_config = Mapping.empty\<rparr>"

text \<open>The same platform off Linux: the default driver resolves to the null device.\<close>

definition null_platform :: "sample_dev platform" where
  "null_platform = sample_platform\<lparr>system_is_linux := False\<rparr>"

text \<open>A manager as \<^verbatim>\<open>__init__\<close> leaves it when the factory is not consulted or
  yields nothing.\<close>

definition fresh :: "WatchdogConfig \<Rightarrow> sample_dev Watchdog" where
  "fresh c = \<lparr>config = c, active_config = c, active = False, impl = NullWatchdog, trace = []\<rparr>"

text \<open>A manager after \<^verbatim>\<open>__init__\<close> (which consulted the factory, see
  \<open>init_then_activate\<close> below) and \<^verbatim>\<open>activate()\<close>.\<close>

definition started :: "sample_dev platform \<Rightarrow> WatchdogConfig \<Rightarrow> sample_dev Watchdog" where
  "started P c = snd (activate P (select_impl P (fresh c)))"

text \<open>On Linux it is armed; off Linux it is active on the null device.\<close>

definition armed :: "sample_dev Watchdog" where
  "armed = started sample_platform sample_config"

definition degraded :: "sample_dev Watchdog" where
  "degraded = started null_platform sample_config"

text \<open>Variants of the sample device: one that cannot be disabled, one that cannot be
  disabled and whose keepalive fails, one whose close fails and leaves it running, and
  one that cannot be disabled and keeps running when closed.\<close>

definition stubborn_platform :: "sample_dev platform" where
  "stubborn_platform = sample_platform\<lparr>dev_can_be_disabled := (\<lambda>d. Inr False)\<rparr>"

definition failing_keepalive_platform :: "sample_dev platform" where
  "failing_keepalive_platform =
     sample_platform\<lparr>dev_can_be_disabled := (\<lambda>d. Inr False),
                      dev_keepalive := (\<lambda>d. (Some (WatchdogError ''write failed''), d))\<rparr>"

definition failing_close_platform :: "sample_dev platform" where
  "failing_close_platform =
     sample_platform\<lparr>dev_close := (\<lambda>d. (Some (WatchdogError ''busy''), d))\<rparr>"

definition unstoppable_platform :: "sample_dev platform" where
  "unstoppable_platform =
     sample_platform\<lparr>dev_can_be_disabled := (\<lambda>d. Inr False), dev_close := (\<lambda>d. (None, d))\<rparr>"

text \<open>The history of one \<^verbatim>\<open>close()\<close> inside \<^verbatim>\<open>_disable\<close>: the call, and the error
  record when it raised.\<close>

definition close_events :: "'d platform \<Rightarrow> 'd impl \<Rightarrow> 'd event list" where
  "close_events P i =
     DevClose i # (case fst (impl_close P i) of None \<Rightarrow> []
                   | Some e \<Rightarrow> [Log ERROR (ErrorDisabling e)])"

subsection \<open>Notions used in the properties\<close>

text \<open>The events that open, close or construct a device.\<close>

fun is_lifecycle :: "'d event \<Rightarrow> bool" where
  "is_lifecycle (GetImpl d c) = True"
| "is_lifecycle (DevOpen i) = True"
| "is_lifecycle (DevClose i) = True"
| "is_lifecycle e = False"

definition lifecycle :: "'d event list \<Rightarrow> 'd event list" where
  "lifecycle t = filter is_lifecycle t"

fun at_most_a_close :: "'d event list \<Rightarrow> bool" where
  "at_most_a_close [] = True"
| "at_most_a_close [DevClose i] = True"
| "at_most_a_close t = False"

text \<open>What a driver switch does after closing the old device.\<close>

definition switch_events :: "'d platform \<Rightarrow> WatchdogConfig \<Rightarrow> 'd event list" where
  "switch_events P c =
     [GetImpl (driver c) (driver_config c),
      DevOpen (if timing_slack c < 0 then NullWatchdog else get_impl P c)]"

lemmas model_defs =
  select_impl_def get_impl_def emit_def logger_def call_def call_open_def call_close_def
  call_keepalive_def call_set_timeout_def then_do_def u_set_timeout_def activate_open_def
  activate_verdict_def u_activate_def disable_body_def u_disable_def reload_config_def
  activate_def disable_def keepalive_def keepalive_body_def reconcile_def mode_branch_def
  driver_branch_def timeout_branch_def timeout_def timing_slack_def set_and_exceeds_def
  driver_changed_def mode_switched_on_def timeout_changed_def config_ne_def config_eq_def
  Watchdog_init_def Let_def

lemmas sample_defs =
  sample_platform_def null_platform_def sample_config_def fresh_def started_def armed_def
  degraded_def

section \<open>Properties\<close>

subsection \<open>What the private methods leave unchanged\<close>

lemma init_then_activate:
  "Watchdog_init sample_platform sample_config =
     Returned (select_impl sample_platform (fresh sample_config))"
  "Watchdog_init null_platform sample_config =
     Returned (select_impl null_platform (fresh sample_config))"
  by (simp_all add: Watchdog_init_def fresh_def sample_config_def select_impl_def emit_def)

lemma call_frame:
  "call ev m s = (r, s') \<Longrightarrow>
     config s' = config s \<and> active_config s' = active_config s \<and> active s' = active s"
  by (auto simp: call_def emit_def split: prod.splits)

lemma u_set_timeout_frame:
  assumes "u_set_timeout P s = (r, s')"
  shows "config s' = config s \<and> active_config s' = active_config s \<and> active s' = active s"
  using assms
  by (auto simp: u_set_timeout_def then_do_def call_set_timeout_def call_close_def logger_def
      emit_def split: prod.splits sum.splits if_splits dest!: call_frame)

lemma activate_open_returns: "\<exists>actual. fst (activate_open P s) = Inr actual"
  by (auto simp: activate_open_def then_do_def Let_def split: prod.splits sum.splits)

lemma activate_open_frame:
  assumes "activate_open P s = (r, s')"
  shows "config s' = config s \<and> active_config s' = config s \<and> active s' = active s"
  using assms
  by (auto simp: activate_open_def then_do_def Let_def call_open_def logger_def emit_def
      split: prod.splits sum.splits if_splits dest!: call_frame u_set_timeout_frame)

lemma activate_verdict_result:
  "activate_verdict P actual s = (r, s') \<Longrightarrow>
     impl s' = impl s \<and> config s' = config s \<and> active_config s' = active_config s \<and>
     active s' = active s \<and>
     r = Inr (\<not> (mode (config s) = MODE_REQUIRED \<and>
                (\<not> impl_is_running P (impl s) \<or> set_and_exceeds actual (timeout (config s)))))"
  by (auto simp: activate_verdict_def Let_def logger_def emit_def split: if_splits)


lemma u_activate_cases:
  assumes "activate_open P s = (Inr actual, s1)" and "u_activate P s = (r, s')"
  shows "impl s' = impl s1 \<and> config s' = config s \<and> active_config s' = config s \<and>
     active s' = active s \<and>
     r = (let verdict = \<not> (mode (config s) = MODE_REQUIRED \<and>
                (\<not> impl_is_running P (impl s1) \<or> set_and_exceeds actual (timeout (config s))))
          in if impl_is_running P (impl s1)
          then (case impl_can_be_disabled P (impl s1) of Inl e \<Rightarrow> Inl e | Inr _ \<Rightarrow> Inr verdict)
          else Inr verdict)"
proof (cases "impl_can_be_disabled P (impl s1)")
  case (Inl e)
  then show ?thesis
    using assms activate_open_frame [OF assms(1)]
    by (auto simp: u_activate_def then_do_def logger_def emit_def Let_def
      split: if_splits dest!: activate_verdict_result)
next
  case (Inr b)
  then show ?thesis
    using assms activate_open_frame [OF assms(1)]
    by (auto simp: u_activate_def then_do_def logger_def emit_def Let_def
      split: if_splits dest!: activate_verdict_result)
qed

lemma activate_open_running_slack:
  assumes "activate_open P s = (r, s')" and "impl_is_running P (impl s')"
  shows "0 \<le> timing_slack (config s)"
proof (rule ccontr)
  assume "\<not> 0 \<le> timing_slack (config s)"
  then have "impl s' = NullWatchdog"
    using assms(1)
    by (auto simp add: activate_open_def then_do_def call_open_def call_def emit_def logger_def
      u_set_timeout_def Let_def)
  with assms(2) show False by simp
qed


lemma u_disable_returns: "fst (u_disable P s) = Inr ()"
  by (simp add: u_disable_def split: prod.splits sum.splits)

lemma u_disable_frame:
  assumes "u_disable P s = (r, s')"
  shows "config s' = config s \<and> active_config s' = active_config s \<and> active s' = active s"
  using assms
  by (auto simp: u_disable_def disable_body_def then_do_def call_keepalive_def call_close_def
      logger_def emit_def split: prod.splits sum.splits if_splits dest!: call_frame)

lemma u_disable_plain:
  assumes "\<not> impl_is_running P (impl s) \<or> impl_can_be_disabled P (impl s) = Inr True"
  shows "u_disable P s =
     (Inr (), s\<lparr>impl := snd (impl_close P (impl s)),
               trace := trace s @ close_events P (impl s)\<rparr>)"
  using assms
  by (auto simp: u_disable_def disable_body_def then_do_def call_close_def call_def
      logger_def emit_def close_events_def split: prod.splits sum.splits option.splits)

lemma u_disable_final_keepalive:
  assumes "impl_is_running P (impl s)" and "impl_can_be_disabled P (impl s) = Inr False"
    and "impl_keepalive P (impl s) = (None, i1)" and "impl_get_timeout P i1 = Inr t"
  shows "u_disable P s =
     (Inr (), s\<lparr>impl := snd (impl_close P i1),
               trace := trace s @ [DevKeepalive (impl s), Log WARNING (CantBeDisabledReboot t)]
                          @ close_events P i1\<rparr>)"
  using assms
  by (auto simp: u_disable_def disable_body_def then_do_def call_close_def call_keepalive_def
      call_def logger_def emit_def close_events_def split: prod.splits sum.splits option.splits)


lemma u_disable_property_raises:
  assumes "impl_is_running P (impl s)" and "impl_can_be_disabled P (impl s) = Inl e"
  shows "u_disable P s = (Inr (), s\<lparr>trace := trace s @ [Log ERROR (ErrorDisabling e)]\<rparr>)"
  using assms
  by (simp add: u_disable_def disable_body_def then_do_def logger_def emit_def)

lemma u_disable_keepalive_raises:
  assumes "impl_is_running P (impl s)" and "impl_can_be_disabled P (impl s) = Inr False"
    and "impl_keepalive P (impl s) = (Some e, i1)"
  shows "u_disable P s =
     (Inr (), s\<lparr>impl := i1,
               trace := trace s @ [DevKeepalive (impl s), Log ERROR (ErrorDisabling e)]\<rparr>)"
  using assms
  by (simp add: u_disable_def disable_body_def then_do_def call_keepalive_def call_def
      logger_def emit_def)

lemma u_disable_get_timeout_raises:
  assumes "impl_is_running P (impl s)" and "impl_can_be_disabled P (impl s) = Inr False"
    and "impl_keepalive P (impl s) = (None, i1)" and "impl_get_timeout P i1 = Inl e"
  shows "u_disable P s =
     (Inr (), s\<lparr>impl := i1,
               trace := trace s @ [DevKeepalive (impl s), Log ERROR (ErrorDisabling e)]\<rparr>)"
  using assms
  by (simp add: u_disable_def disable_body_def then_do_def call_keepalive_def call_def
      logger_def emit_def)

lemma u_activate_frame:
  assumes "u_activate P s = (r, s')"
  shows "config s' = config s \<and> active_config s' = config s \<and> active s' = active s"
proof -
  obtain actual s1 where "activate_open P s = (Inr actual, s1)"
    using activate_open_returns [of P s] by (cases "activate_open P s") auto
  from u_activate_cases [OF this assms] show ?thesis by simp
qed

lemma mode_branch_synced:
  assumes "mode_branch P s = (Inr u, s1)" and "mode_switched_on s"
  shows "active_config s1 = config s1"
  using assms
  by (auto simp: mode_branch_def then_do_def select_impl_def emit_def
      split: prod.splits sum.splits dest!: u_activate_frame)

lemma driver_branch_synced:
  assumes "driver_branch P s = (Inr u, s1)" and "driver_changed s"
  shows "active_config s1 = config s1"
  using assms
  by (auto simp: driver_branch_def then_do_def select_impl_def emit_def
      split: prod.splits sum.splits dest!: u_activate_frame u_disable_frame)

lemma driver_branch_skipped:
  "\<not> driver_changed s \<Longrightarrow> driver_branch P s = (Inr (), s)"
  by (simp add: driver_branch_def)

lemma synced_unchanged:
  "active_config s = config s \<Longrightarrow> \<not> driver_changed s \<and> \<not> timeout_changed s"
  by (simp add: driver_changed_def timeout_changed_def)

lemma mode_branch_skipped:
  "\<not> mode_switched_on s \<Longrightarrow> mode_branch P s = (Inr (), s)"
  by (simp add: mode_branch_def)

lemma timeout_branch_skipped:
  "\<not> timeout_changed s \<Longrightarrow> timeout_branch P s = (Inr (), s)"
  by (simp add: timeout_branch_def)

lemma reconcile_one_branch:
  "reconcile P s =
     (if mode_switched_on s
        then then_do (mode_branch P) (\<lambda>_ s. (Inr (), s\<lparr>active_config := config s\<rparr>)) s
      else if driver_changed s
        then then_do (driver_branch P) (\<lambda>_ s. (Inr (), s\<lparr>active_config := config s\<rparr>)) s
      else then_do (timeout_branch P) (\<lambda>_ s. (Inr (), s\<lparr>active_config := config s\<rparr>)) s)"
proof (cases "mode_switched_on s")
  case True
  obtain r s1 where mb: "mode_branch P s = (r, s1)" by (cases "mode_branch P s")
  show ?thesis
  proof (cases r)
    case (Inl e)
    with True mb show ?thesis by (simp add: reconcile_def then_do_def)
  next
    case (Inr u)
    with True mb have "active_config s1 = config s1"
      using mode_branch_synced [of P s u s1] by simp
    then have "driver_branch P s1 = (Inr (), s1)" "timeout_branch P s1 = (Inr (), s1)"
      using synced_unchanged [of s1]
      by (simp_all add: driver_branch_skipped timeout_branch_skipped)
    with True mb Inr show ?thesis by (simp add: reconcile_def then_do_def)
  qed
next
  case False
  then have mb: "mode_branch P s = (Inr (), s)" by (rule mode_branch_skipped)
  show ?thesis
  proof (cases "driver_changed s")
    case True
    obtain r s1 where db: "driver_branch P s = (r, s1)" by (cases "driver_branch P s")
    show ?thesis
    proof (cases r)
      case (Inl e)
      with False True mb db show ?thesis by (simp add: reconcile_def then_do_def)
    next
      case (Inr u)
      with True db have "active_config s1 = config s1"
        using driver_branch_synced [of P s u s1] by simp
      then have "timeout_branch P s1 = (Inr (), s1)"
        using synced_unchanged [of s1] by (simp add: timeout_branch_skipped)
      with False True mb db Inr show ?thesis by (simp add: reconcile_def then_do_def)
    qed
  next
    case nd: False
    then have "driver_branch P s = (Inr (), s)" by (rule driver_branch_skipped)
    with False nd mb show ?thesis by (simp add: reconcile_def then_do_def)
  qed
qed

lemma reconcile_synced:
  assumes "reconcile P s = (Inr u, s')"
  shows "active_config s' = config s'"
  using assms
  by (auto simp: reconcile_def then_do_def split: prod.splits sum.splits)

lemma activate_synced:
  assumes "activate P s = (r, s')"
  shows "active_config s' = config s' \<and> config s' = config s \<and> active s'"
  using u_activate_frame [OF assms [unfolded activate_def]] by simp

lemma keepalive_synced_idle:
  assumes "active_config s = config s"
  shows "keepalive_body P s = (if active s then call_keepalive P s else (Inr (), s))"
  using assms
  by (auto simp: keepalive_body_def then_do_def config_ne_def config_eq_def call_keepalive_def
      split: prod.splits sum.splits dest!: call_frame)


subsection \<open>Devices opened, closed and constructed\<close>

lemma lifecycle_simps [simp]:
  "lifecycle [] = []"
  "lifecycle (t @ u) = lifecycle t @ lifecycle u"
  "lifecycle (e # t) = (if is_lifecycle e then e # lifecycle t else lifecycle t)"
  by (simp_all add: lifecycle_def)

lemma u_set_timeout_lifecycle:
  assumes "u_set_timeout P s = (r, s')"
  shows "\<exists>cl. lifecycle (trace s') = lifecycle (trace s) @ cl \<and> at_most_a_close cl"
  using assms
  by (auto simp: u_set_timeout_def then_do_def call_set_timeout_def call_close_def call_def
      logger_def emit_def split: prod.splits sum.splits if_splits option.splits)

lemma activate_open_lifecycle:
  assumes "activate_open P s = (r, s')"
  shows "\<exists>cl. lifecycle (trace s') =
      lifecycle (trace s) @
        DevOpen (if timing_slack (config s) < 0 then NullWatchdog else impl s) # cl \<and>
      at_most_a_close cl"
  using assms
  by (auto simp: activate_open_def then_do_def Let_def call_open_def call_def logger_def emit_def
      split: prod.splits sum.splits if_splits option.splits dest!: u_set_timeout_lifecycle)

lemma activate_verdict_lifecycle:
  "activate_verdict P actual s = (r, s') \<Longrightarrow> lifecycle (trace s') = lifecycle (trace s)"
  by (auto simp: activate_verdict_def Let_def logger_def emit_def split: if_splits)

lemma u_activate_lifecycle:
  assumes "u_activate P s = (r, s')"
  shows "\<exists>cl. lifecycle (trace s') =
      lifecycle (trace s) @
        DevOpen (if timing_slack (config s) < 0 then NullWatchdog else impl s) # cl \<and>
      at_most_a_close cl"
  using assms
  by (auto simp: u_activate_def then_do_def logger_def emit_def
      split: prod.splits sum.splits if_splits
      dest!: activate_open_lifecycle activate_verdict_lifecycle)


lemma timeout_branch_lifecycle:
  assumes "timeout_branch P s = (r, s')"
  shows "lifecycle (trace s') = lifecycle (trace s)"
  using assms
  by (auto simp: timeout_branch_def then_do_def call_set_timeout_def call_def logger_def emit_def
      split: prod.splits sum.splits if_splits option.splits)

lemma mode_branch_lifecycle:
  assumes "mode_switched_on s" and "mode_branch P s = (r, s')"
  shows "\<exists>cl. lifecycle (trace s') =
      lifecycle (trace s) @
        [GetImpl (driver (config s)) (driver_config (config s)),
         DevOpen (if timing_slack (config s) < 0 then NullWatchdog else get_impl P (config s))]
        @ cl \<and> at_most_a_close cl"
  using assms
  by (auto simp: mode_branch_def then_do_def select_impl_def emit_def
      split: prod.splits sum.splits dest!: u_activate_lifecycle)

lemma driver_branch_lifecycle:
  assumes "driver_changed s" and "u_disable P s = (Inr (), s1)"
    and "lifecycle (trace s1) = lifecycle (trace s) @ [DevClose i]"
    and "driver_branch P s = (r, s')"
  shows "\<exists>cl. lifecycle (trace s') =
      lifecycle (trace s) @
        [DevClose i, GetImpl (driver (config s)) (driver_config (config s)),
         DevOpen (if timing_slack (config s) < 0 then NullWatchdog else get_impl P (config s))]
        @ cl \<and> at_most_a_close cl"
  using assms u_disable_frame [OF assms(2)]
  by (auto simp: driver_branch_def then_do_def select_impl_def emit_def
      split: prod.splits sum.splits dest!: u_activate_lifecycle)

lemma reconcile_after_switch:
  assumes "mode_branch P s = (Inr (), s)" and "driver_branch P s = (r, s1)"
    and "driver_changed s"
  shows "lifecycle (trace (snd (reconcile P s))) = lifecycle (trace s1)"
proof (cases r)
  case (Inl e)
  with assms show ?thesis by (simp add: reconcile_def then_do_def)
next
  case (Inr u)
  with assms(2,3) have "active_config s1 = config s1"
    using driver_branch_synced [of P s u s1] by simp
  then have "timeout_branch P s1 = (Inr (), s1)"
    by (simp add: timeout_branch_def timeout_changed_def)
  with assms Inr show ?thesis by (simp add: reconcile_def then_do_def)
qed


lemma reconcile_after_mode:
  assumes "mode_switched_on s" and "mode_branch P s = (r, s1)"
  shows "lifecycle (trace (snd (reconcile P s))) = lifecycle (trace s1)"
proof (cases r)
  case (Inl e)
  with assms show ?thesis by (simp add: reconcile_def then_do_def)
next
  case (Inr u)
  with assms have "active_config s1 = config s1"
    using mode_branch_synced [of P s u s1] by simp
  then have "driver_branch P s1 = (Inr (), s1)" "timeout_branch P s1 = (Inr (), s1)"
    by (simp_all add: driver_branch_def driver_changed_def timeout_branch_def timeout_changed_def)
  with assms Inr show ?thesis by (simp add: reconcile_def then_do_def)
qed

lemma lifecycle_close_events: "lifecycle (close_events P i) = [DevClose i]"
  by (simp add: close_events_def split: option.splits)

lemma keepalive_lifecycle_reconcile:
  assumes "active s" and "config_ne (config s) (active_config s)"
    and "impl_keepalive P (impl s) = (None, i1)"
  shows "lifecycle (trace (snd (keepalive P s))) =
     lifecycle (trace (snd (reconcile P ((emit (DevKeepalive (impl s)) s)\<lparr>impl := i1\<rparr>))))"
  using assms
  by (auto simp: keepalive_def keepalive_body_def then_do_def call_keepalive_def call_def
      logger_def emit_def split: prod.splits sum.splits)

lemma keepalive_failed_device:
  assumes "active s" and "impl_keepalive P (impl s) = (Some e, i1)"
  shows "keepalive P s =
     (Inr (), s\<lparr>impl := i1,
               trace := trace s @ [DevKeepalive (impl s), Log ERROR (ErrorKeepalive e)]\<rparr>)"
  using assms
  by (simp add: keepalive_def keepalive_body_def then_do_def call_keepalive_def call_def
      logger_def emit_def)

lemma reload_deferred:
  assumes "active s" and "mode new \<noteq> MODE_OFF"
  shows "reload_config P new s = (Inr (), s\<lparr>config := new\<rparr>)"
  using assms by (simp add: reload_config_def then_do_def)


subsection \<open>Derived quantities of a snapshot\<close>

text \<open>
  Claim C7. For every configuration snapshot the derived timeout is
  \<open>ttl - safety_margin\<close> when the safety margin is not the sentinel \<open>-1\<close>, and the
  integer floor of \<open>ttl / 2\<close> when it is; the timing slack is the timeout minus
  \<open>loop_wait\<close>. Both depend on the stored fields \<open>ttl\<close>, \<open>safety_margin\<close> and
  \<open>loop_wait\<close> only.
\<close>

theorem timeout_and_timing_slack:
  "(safety_margin c \<noteq> - 1 \<longrightarrow> timeout c = ttl c - safety_margin c) \<and>
   (safety_margin c = - 1 \<longrightarrow> timeout c = \<lfloor>real_of_int (ttl c) / 2\<rfloor>) \<and>
   timing_slack c = timeout c - loop_wait c \<and>
   (ttl c' = ttl c \<and> safety_margin c' = safety_margin c \<and> loop_wait c' = loop_wait c
      \<longrightarrow> timeout c' = timeout c \<and> timing_slack c' = timing_slack c)"
proof -
  have "\<lfloor>real_of_int (ttl c) / 2\<rfloor> = ttl c div 2"
    using floor_divide_of_int_eq [of "ttl c" 2, where ?'a = real] by simp
  then show ?thesis
    by (simp add: timeout_def timing_slack_def)
qed

theorem timeout_and_timing_slack_witness:
  "timeout sample_config = 25 \<and> timing_slack sample_config = 15 \<and>
   timeout (sample_config\<lparr>ttl := - 7, safety_margin := - 1\<rparr>) = - 4 \<and>
   timing_slack (sample_config\<lparr>ttl := - 7, safety_margin := - 1\<rparr>) = - 14 \<and>
   timeout (sample_config\<lparr>mode := MODE_OFF, driver := ''testing''\<rparr>) = timeout sample_config"
  using timeout_and_timing_slack [of sample_config "sample_config\<lparr>mode := MODE_OFF, driver := ''testing''\<rparr>"]
    timeout_and_timing_slack [of "sample_config\<lparr>ttl := - 7, safety_margin := - 1\<rparr>" sample_config]
  by (simp add: sample_config_def)

subsection \<open>Construction\<close>

text \<open>
  Claim C10. Constructing a manager from a snapshot whose mode is Required, where the
  device selection yields the null device, ends in \<^verbatim>\<open>sys.exit(1)\<close>: the constructor
  does not return. For mode Off the constructor installs the null device and does not
  call \<^verbatim>\<open>get_impl\<close> (the history is empty and the result does not depend on the
  platform). The constructor exits in no other case.
\<close>

theorem init_exits_or_installs_null:
  "(mode c = MODE_REQUIRED \<and> is_null (get_impl P c) \<longrightarrow>
      Watchdog_init P c =
        SystemExit 1 [GetImpl (driver c) (driver_config c), Log ERROR NotSupportedOnPlatform]) \<and>
   (mode c = MODE_OFF \<longrightarrow>
      Watchdog_init P c =
        Returned \<lparr>config = c, active_config = c, active = False, impl = NullWatchdog,
                  trace = []\<rparr>) \<and>
   (\<forall>n t. Watchdog_init P c = SystemExit n t \<longrightarrow>
      n = 1 \<and> mode c = MODE_REQUIRED \<and> is_null (get_impl P c))"
  by (simp add: Watchdog_init_def select_impl_def emit_def logger_def Let_def)

theorem init_exits_or_installs_null_witness:
  "Watchdog_init null_platform (sample_config\<lparr>mode := MODE_REQUIRED\<rparr>) =
     SystemExit 1 [GetImpl ''default'' Mapping.empty, Log ERROR NotSupportedOnPlatform] \<and>
   Watchdog_init sample_platform (sample_config\<lparr>mode := MODE_OFF\<rparr>) =
     Returned (fresh (sample_config\<lparr>mode := MODE_OFF\<rparr>))"
  using init_exits_or_installs_null [of "sample_config\<lparr>mode := MODE_REQUIRED\<rparr>" null_platform]
    init_exits_or_installs_null [of "sample_config\<lparr>mode := MODE_OFF\<rparr>" sample_platform]
  by (simp add: sample_defs get_impl_def)

subsection \<open>Keepalive\<close>

text \<open>
  Claim C2. For every manager state and every behaviour of the device, \<^verbatim>\<open>keepalive()\<close>
  returns normally: a \<^verbatim>\<open>WatchdogError\<close> raised anywhere in its body (by the device's
  keepalive, set_timeout, open, get_timeout, close or can_be_disabled) is caught, and
  logged at error level.
\<close>

theorem keepalive_never_raises:
  "fst (keepalive P s) = Inr () \<and>
   (\<forall>e s'. keepalive_body P s = (Inl e, s') \<longrightarrow>
      snd (keepalive P s) = logger ERROR (ErrorKeepalive e) s')"
  by (simp add: keepalive_def split: prod.splits sum.splits)

theorem keepalive_never_raises_witness:
  "keepalive_body sample_platform
     (armed\<lparr>impl := Device \<lparr>is_open = False, seconds = 25\<rparr>, trace := []\<rparr>) =
     (Inl (WatchdogError ''not open''),
      armed\<lparr>impl := Device \<lparr>is_open = False, seconds = 25\<rparr>,
            trace := [DevKeepalive (Device \<lparr>is_open = False, seconds = 25\<rparr>)]\<rparr>) \<and>
   keepalive sample_platform
     (armed\<lparr>impl := Device \<lparr>is_open = False, seconds = 25\<rparr>, trace := []\<rparr>) =
     (Inr (),
      armed\<lparr>impl := Device \<lparr>is_open = False, seconds = 25\<rparr>,
            trace := [DevKeepalive (Device \<lparr>is_open = False, seconds = 25\<rparr>),
                      Log ERROR (ErrorKeepalive (WatchdogError ''not open''))]\<rparr>)"
proof -
  let ?s = "armed\<lparr>impl := Device \<lparr>is_open = False, seconds = 25\<rparr>, trace := []\<rparr>"
  have body: "keepalive_body sample_platform ?s =
     (Inl (WatchdogError ''not open''),
      armed\<lparr>impl := Device \<lparr>is_open = False, seconds = 25\<rparr>,
            trace := [DevKeepalive (Device \<lparr>is_open = False, seconds = 25\<rparr>)]\<rparr>)"
    by (simp add: model_defs sample_defs)
  from keepalive_never_raises [of sample_platform ?s] body
  show ?thesis
    by (simp add: prod_eq_iff logger_def emit_def)
qed

subsection \<open>Activation\<close>

text \<open>
  Claim C1. \<^verbatim>\<open>activate()\<close> sets the active flag. When it returns, it returns false
  exactly when the mode is Required and no safe watchdog was armed: the device is not
  running after the activation sequence, or \<^verbatim>\<open>actual_timeout\<close> is set and exceeds the
  computed timeout of the snapshot. In every other case it returns true, the degraded
  Automatic case included. Here \<open>actual\<close> is the value of \<^verbatim>\<open>actual_timeout\<close> after the
  \<^verbatim>\<open>try\<close> statement (\<open>activate_open\<close> always yields one, see
  \<open>activate_open_returns\<close>), and "set" is Python's truth value: \<^verbatim>\<open>None\<close> and \<open>0\<close>
  count as unset, which makes no difference for a running device when \<open>loop_wait\<close> is
  not negative. The method raises only if \<^verbatim>\<open>can_be_disabled\<close> of the running device
  raises, which the docstring of \<^verbatim>\<open>WatchdogBase\<close> allows for a device that was not
  opened only; if it does not, \<^verbatim>\<open>activate()\<close> returns.
\<close>

theorem activate_result:
  assumes "activate_open P (s\<lparr>active := True\<rparr>) = (Inr actual, s1)"
    and "activate P s = (r, s')"
  shows "active s' \<and> config s' = config s \<and> impl s' = impl s1 \<and>
    (\<forall>b. r = Inr b \<longrightarrow>
       (b = False \<longleftrightarrow>
          mode (config s) = MODE_REQUIRED \<and>
          (\<not> impl_is_running P (impl s') \<or> set_and_exceeds actual (timeout (config s))))) \<and>
    (\<forall>e. r = Inl e \<longrightarrow>
       impl_is_running P (impl s') \<and> impl_can_be_disabled P (impl s') = Inl e) \<and>
    ((impl_is_running P (impl s') \<longrightarrow> (\<exists>b. impl_can_be_disabled P (impl s') = Inr b))
       \<longrightarrow> (\<exists>b. r = Inr b)) \<and>
    (0 \<le> loop_wait (config s) \<and> impl_is_running P (impl s') \<longrightarrow>
       (set_and_exceeds actual (timeout (config s)) \<longleftrightarrow>
          (\<exists>a. actual = Some a \<and> a > timeout (config s))))"
proof -
  note c = u_activate_cases [OF assms(1) assms(2) [unfolded activate_def]]
  from c have frame: "active s'" "config s' = config s" "impl s' = impl s1"
    by simp_all
  have ret: "\<forall>b. r = Inr b \<longrightarrow>
       (b = False \<longleftrightarrow>
          mode (config s) = MODE_REQUIRED \<and>
          (\<not> impl_is_running P (impl s') \<or> set_and_exceeds actual (timeout (config s))))"
    using c by (auto simp: Let_def split: if_splits sum.splits)
  have raised: "\<forall>e. r = Inl e \<longrightarrow>
       impl_is_running P (impl s') \<and> impl_can_be_disabled P (impl s') = Inl e"
    using c by (auto simp: Let_def split: if_splits sum.splits)
  have returns: "(impl_is_running P (impl s') \<longrightarrow> (\<exists>b. impl_can_be_disabled P (impl s') = Inr b))
       \<longrightarrow> (\<exists>b. r = Inr b)"
    using c by (auto simp: Let_def split: if_splits sum.splits)
  have zero: "set_and_exceeds actual (timeout (config s)) \<longleftrightarrow>
          (\<exists>a. actual = Some a \<and> a > timeout (config s))"
    if "0 \<le> loop_wait (config s)" and "impl_is_running P (impl s')"
  proof -
    from that(2) frame(3) have "impl_is_running P (impl s1)" by simp
    from activate_open_running_slack [OF assms(1) this]
    have "0 \<le> timing_slack (config s)" by simp
    with that(1) have "0 \<le> timeout (config s)"
      by (simp add: timing_slack_def)
    then show ?thesis
      by (auto simp: set_and_exceeds_def split: option.splits)
  qed
  from frame ret raised returns zero show ?thesis
    by blast
qed

theorem activate_result_witness:
  "activate sample_platform (select_impl sample_platform (fresh sample_config)) = (Inr True, armed) \<and>
   active armed \<and> impl armed = Device \<lparr>is_open = True, seconds = 25\<rparr> \<and>
   fst (activate sample_platform
     (select_impl sample_platform (fresh (sample_config\<lparr>mode := MODE_REQUIRED, ttl := 12\<rparr>))))
     = Inr False \<and>
   impl (snd (activate sample_platform
     (select_impl sample_platform (fresh (sample_config\<lparr>mode := MODE_REQUIRED, ttl := 12\<rparr>)))))
     = NullWatchdog"
proof -
  let ?s = "select_impl sample_platform (fresh sample_config)"
  let ?t = "select_impl sample_platform
              (fresh (sample_config\<lparr>mode := MODE_REQUIRED, ttl := 12\<rparr>))"
  have 1: "activate_open sample_platform (?s\<lparr>active := True\<rparr>) =
      (Inr (Some 25), snd (activate_open sample_platform (?s\<lparr>active := True\<rparr>)))"
    by (simp add: model_defs sample_defs)
  have 2: "activate sample_platform ?s = (Inr True, armed)"
    by (simp add: model_defs sample_defs)
  have 3: "activate_open sample_platform (?t\<lparr>active := True\<rparr>) =
      (Inr (Some 1000000000), snd (activate_open sample_platform (?t\<lparr>active := True\<rparr>)))"
    by (simp add: model_defs sample_defs)
  have 4: "fst (activate sample_platform ?t) = Inr False"
    by (simp add: model_defs sample_defs)
  then have w4: "activate sample_platform ?t = (Inr False, snd (activate sample_platform ?t))"
    by (simp add: prod_eq_iff)
  have 5: "impl armed = Device \<lparr>is_open = True, seconds = 25\<rparr>"
    by (simp add: model_defs sample_defs)
  have 6: "impl (snd (activate sample_platform ?t)) = NullWatchdog"
    by (simp add: model_defs sample_defs)
  from activate_result [OF 1 2] activate_result [OF 3 w4] 2 4 5 6 show ?thesis
    by simp
qed

text \<open>
  Claim C6. When the snapshot being activated has a negative timing slack, the
  activation sequence uses no real device: a warning is logged, the null device
  replaces the owned one, the only device call is \<^verbatim>\<open>open\<close> on the null device, and
  the null device is the owned device after \<^verbatim>\<open>_activate\<close>, which returns false in mode
  Required (after logging an error) and true otherwise.
\<close>

theorem negative_slack_forces_null:
  assumes "timing_slack (config s) < 0"
  shows "u_activate P s =
     (Inr (mode (config s) \<noteq> MODE_REQUIRED),
      s\<lparr>active_config := config s, impl := NullWatchdog,
        trace := trace s @
          [Log WARNING (SlackNegative (ttl (config s)) (loop_wait (config s))),
           DevOpen NullWatchdog] @
          (if mode (config s) = MODE_REQUIRED then [Log ERROR RequiredNotConfigured]
           else [])\<rparr>)"
  using assms
  by (simp add: u_activate_def activate_open_def then_do_def call_open_def call_def emit_def
      logger_def u_set_timeout_def activate_verdict_def Let_def)

theorem negative_slack_forces_null_witness:
  "timing_slack (sample_config\<lparr>ttl := 12\<rparr>) < 0 \<and>
   impl (select_impl sample_platform (fresh (sample_config\<lparr>ttl := 12\<rparr>))) =
     Device \<lparr>is_open = False, seconds = 60\<rparr> \<and>
   u_activate sample_platform (select_impl sample_platform (fresh (sample_config\<lparr>ttl := 12\<rparr>))) =
     (Inr True,
      \<lparr>config = sample_config\<lparr>ttl := 12\<rparr>, active_config = sample_config\<lparr>ttl := 12\<rparr>,
       active = False, impl = NullWatchdog,
       trace = [GetImpl ''default'' Mapping.empty, Log WARNING (SlackNegative 12 10),
                DevOpen NullWatchdog]\<rparr>)"
proof -
  let ?s = "select_impl sample_platform (fresh (sample_config\<lparr>ttl := 12\<rparr>))"
  have slack: "timing_slack (config ?s) < 0"
    by (simp add: model_defs sample_defs)
  from negative_slack_forces_null [OF slack, of sample_platform] slack show ?thesis
    by (simp add: select_impl_def get_impl_def emit_def sample_defs)
qed

subsection \<open>Switching off and disabling\<close>

text \<open>
  Claim C4, as stated: when \<^verbatim>\<open>reload_config\<close> receives a snapshot with mode Off while
  the manager is active, the current device has been closed (after a final keepalive
  when it is running and cannot be disabled) before the null device replaces it. It
  fails when a step of \<^verbatim>\<open>_disable\<close> before the close raises: for a running device that
  cannot be disabled and whose final keepalive fails, \<^verbatim>\<open>close()\<close> is never called, the
  error is logged, and the null device replaces the device that is still open.
\<close>

theorem reload_off_skips_close_counterexample:
  "active (started failing_keepalive_platform sample_config) \<and>
   impl (started failing_keepalive_platform sample_config) =
     Device \<lparr>is_open = True, seconds = 25\<rparr> \<and>
   reload_config failing_keepalive_platform (sample_config\<lparr>mode := MODE_OFF\<rparr>)
     (started failing_keepalive_platform sample_config) =
     (Inr (),
      \<lparr>config = sample_config\<lparr>mode := MODE_OFF\<rparr>,
       active_config = sample_config\<lparr>mode := MODE_OFF\<rparr>,
       active = True, impl = NullWatchdog,
       trace = trace (started failing_keepalive_platform sample_config) @
         [DevKeepalive (Device \<lparr>is_open = True, seconds = 25\<rparr>),
          Log ERROR (ErrorDisabling (WatchdogError ''write failed''))]\<rparr>)"
  by (simp add: model_defs sample_defs failing_keepalive_platform_def)

text \<open>
  Claim C4, amended: when \<^verbatim>\<open>reload_config\<close> receives a snapshot with mode Off while
  the manager is active, then before it returns \<^verbatim>\<open>_disable\<close> has run on the current
  device, the null device has replaced it, and \<^verbatim>\<open>active_config\<close> is the new snapshot;
  the manager stays active and the call does not raise. \<^verbatim>\<open>_disable\<close> closes a device
  that is not running or can be disabled; for a running device that cannot be disabled
  it sends one keepalive, logs the warning and then closes, provided the keepalive and
  \<^verbatim>\<open>get_timeout\<close> succeed. If \<^verbatim>\<open>can_be_disabled\<close>, that keepalive or
  \<^verbatim>\<open>get_timeout\<close> raises, the error is logged and the device is not closed.
\<close>

theorem reload_off_disables_immediately:
  assumes "mode new = MODE_OFF" and "active s" and "reload_config P new s = (r, s')"
  shows "r = Inr () \<and> impl s' = NullWatchdog \<and> active_config s' = new \<and> config s' = new \<and>
    active s' \<and>
    s' = (snd (u_disable P (s\<lparr>config := new\<rparr>)))\<lparr>active_config := new, impl := NullWatchdog\<rparr> \<and>
    (\<not> impl_is_running P (impl s) \<or> impl_can_be_disabled P (impl s) = Inr True \<longrightarrow>
       trace s' = trace s @ close_events P (impl s)) \<and>
    (\<forall>i1 t. impl_is_running P (impl s) \<and> impl_can_be_disabled P (impl s) = Inr False \<and>
       impl_keepalive P (impl s) = (None, i1) \<and> impl_get_timeout P i1 = Inr t \<longrightarrow>
       trace s' = trace s @ [DevKeepalive (impl s), Log WARNING (CantBeDisabledReboot t)]
                    @ close_events P i1) \<and>
    (\<forall>e. impl_is_running P (impl s) \<and> impl_can_be_disabled P (impl s) = Inl e \<longrightarrow>
       trace s' = trace s @ [Log ERROR (ErrorDisabling e)]) \<and>
    (\<forall>e i1. impl_is_running P (impl s) \<and> impl_can_be_disabled P (impl s) = Inr False \<and>
       impl_keepalive P (impl s) = (Some e, i1) \<longrightarrow>
       trace s' = trace s @ [DevKeepalive (impl s), Log ERROR (ErrorDisabling e)]) \<and>
    (\<forall>e i1. impl_is_running P (impl s) \<and> impl_can_be_disabled P (impl s) = Inr False \<and>
       impl_keepalive P (impl s) = (None, i1) \<and> impl_get_timeout P i1 = Inl e \<longrightarrow>
       trace s' = trace s @ [DevKeepalive (impl s), Log ERROR (ErrorDisabling e)])"
proof -
  let ?s0 = "s\<lparr>config := new\<rparr>"
  obtain s1 where d: "u_disable P ?s0 = (Inr (), s1)"
    using u_disable_returns [of P ?s0] by (cases "u_disable P ?s0") auto
  note f = u_disable_frame [OF d]
  from assms d f have res: "r = Inr ()" "s' = s1\<lparr>active_config := new, impl := NullWatchdog\<rparr>"
    by (auto simp: reload_config_def then_do_def)
  have plain: "trace s' = trace s @ close_events P (impl s)"
    if "\<not> impl_is_running P (impl s) \<or> impl_can_be_disabled P (impl s) = Inr True"
    using u_disable_plain [of P ?s0] that d res by auto
  have final: "trace s' = trace s @ [DevKeepalive (impl s), Log WARNING (CantBeDisabledReboot t)]
                    @ close_events P i1"
    if "impl_is_running P (impl s)" "impl_can_be_disabled P (impl s) = Inr False"
       "impl_keepalive P (impl s) = (None, i1)" "impl_get_timeout P i1 = Inr t" for i1 t
    using u_disable_final_keepalive [of P ?s0 i1 t] that d res by auto
  have pr: "trace s' = trace s @ [Log ERROR (ErrorDisabling e)]"
    if "impl_is_running P (impl s)" "impl_can_be_disabled P (impl s) = Inl e" for e
    using u_disable_property_raises [of P ?s0 e] that d res by auto
  have ka: "trace s' = trace s @ [DevKeepalive (impl s), Log ERROR (ErrorDisabling e)]"
    if "impl_is_running P (impl s)" "impl_can_be_disabled P (impl s) = Inr False"
       "impl_keepalive P (impl s) = (Some e, i1)" for e i1
    using u_disable_keepalive_raises [of P ?s0 e i1] that d res by auto
  have gt: "trace s' = trace s @ [DevKeepalive (impl s), Log ERROR (ErrorDisabling e)]"
    if "impl_is_running P (impl s)" "impl_can_be_disabled P (impl s) = Inr False"
       "impl_keepalive P (impl s) = (None, i1)" "impl_get_timeout P i1 = Inl e" for e i1
    using u_disable_get_timeout_raises [of P ?s0 i1 e] that d res by auto
  have frame: "r = Inr () \<and> impl s' = NullWatchdog \<and> active_config s' = new \<and>
      config s' = new \<and> active s' \<and>
      s' = (snd (u_disable P ?s0))\<lparr>active_config := new, impl := NullWatchdog\<rparr>"
    using res f assms(2) d by auto
  from frame plain final pr ka gt show ?thesis
    by blast
qed

theorem reload_off_disables_immediately_witness:
  "mode (sample_config\<lparr>mode := MODE_OFF\<rparr>) = MODE_OFF \<and> active armed \<and>
   impl (snd (reload_config sample_platform (sample_config\<lparr>mode := MODE_OFF\<rparr>) armed)) =
     NullWatchdog \<and>
   trace (snd (reload_config sample_platform (sample_config\<lparr>mode := MODE_OFF\<rparr>) armed)) =
     trace armed @ [DevClose (Device \<lparr>is_open = True, seconds = 25\<rparr>)] \<and>
   trace (snd (reload_config stubborn_platform (sample_config\<lparr>mode := MODE_OFF\<rparr>) armed)) =
     trace armed @ [DevKeepalive (Device \<lparr>is_open = True, seconds = 25\<rparr>),
                    Log WARNING (CantBeDisabledReboot 25),
                    DevClose (Device \<lparr>is_open = True, seconds = 25\<rparr>)]"
proof -
  let ?off = "sample_config\<lparr>mode := MODE_OFF\<rparr>"
  let ?d = "Device \<lparr>is_open = True, seconds = 25\<rparr>"
  have m: "mode ?off = MODE_OFF" by simp
  have a: "active armed" by (simp add: model_defs sample_defs)
  have i: "impl armed = ?d"
    by (simp add: model_defs sample_defs)
  have can: "impl_can_be_disabled sample_platform (impl armed) = Inr True"
    by (simp add: i sample_platform_def)
  have cannot: "impl_is_running stubborn_platform (impl armed) \<and>
      impl_can_be_disabled stubborn_platform (impl armed) = Inr False \<and>
      impl_keepalive stubborn_platform (impl armed) = (None, ?d) \<and>
      impl_get_timeout stubborn_platform ?d = Inr 25"
    by (simp add: i sample_platform_def stubborn_platform_def)
  have ce: "close_events sample_platform ?d = [DevClose ?d]"
    "close_events stubborn_platform ?d = [DevClose ?d]"
    by (simp_all add: close_events_def sample_platform_def stubborn_platform_def)
  from reload_off_disables_immediately [OF m a surjective_pairing, of sample_platform] can
  have 1: "impl (snd (reload_config sample_platform ?off armed)) = NullWatchdog"
    "trace (snd (reload_config sample_platform ?off armed)) =
       trace armed @ close_events sample_platform (impl armed)"
    by blast+
  from reload_off_disables_immediately [OF m a surjective_pairing, of stubborn_platform] cannot
  have 2: "trace (snd (reload_config stubborn_platform ?off armed)) =
       trace armed @ [DevKeepalive (impl armed), Log WARNING (CantBeDisabledReboot 25)]
         @ close_events stubborn_platform ?d"
    by blast
  from m a 1 2 show ?thesis
    by (simp add: i ce)
qed


text \<open>
  Claim C8, as stated: the second of two \<^verbatim>\<open>disable()\<close> calls in a row performs no
  device operation. It fails for a device that is still running after the first call:
  one whose close raised (the error \<^verbatim>\<open>_disable\<close> catches), where the second call
  closes again, and one that cannot be stopped, where the second call sends another
  keepalive before it closes again.
\<close>

theorem second_disable_counterexample:
  "trace (snd (disable failing_close_platform
      (snd (disable failing_close_platform (started failing_close_platform sample_config))))) =
   trace (snd (disable failing_close_platform (started failing_close_platform sample_config))) @
     [DevClose (Device \<lparr>is_open = True, seconds = 25\<rparr>),
      Log ERROR (ErrorDisabling (WatchdogError ''busy''))] \<and>
   trace (snd (disable unstoppable_platform
      (snd (disable unstoppable_platform (started unstoppable_platform sample_config))))) =
   trace (snd (disable unstoppable_platform (started unstoppable_platform sample_config))) @
     [DevKeepalive (Device \<lparr>is_open = True, seconds = 25\<rparr>),
      Log WARNING (CantBeDisabledReboot 25),
      DevClose (Device \<lparr>is_open = True, seconds = 25\<rparr>)]"
  by (simp add: model_defs sample_defs started_def failing_close_platform_def
      unstoppable_platform_def)

text \<open>
  Claim C8, amended: if the device is not running after the first \<^verbatim>\<open>disable()\<close>
  (it is closed, or the null device), the second \<^verbatim>\<open>disable()\<close> sends no keepalive and
  makes one device call, \<^verbatim>\<open>close()\<close> on that device; when this close is a no-op, the
  second call leaves the manager as it was.
\<close>

theorem second_disable_only_closes:
  assumes "disable P s = (r, s1)" and "\<not> impl_is_running P (impl s1)"
  shows "disable P s1 =
      (Inr (), s1\<lparr>impl := snd (impl_close P (impl s1)),
                 trace := trace s1 @ close_events P (impl s1)\<rparr>) \<and>
    (impl_close P (impl s1) = (None, impl s1) \<longrightarrow>
       disable P s1 = (Inr (), emit (DevClose (impl s1)) s1))"
proof -
  from assms(1) u_disable_returns [of P s] have inactive: "\<not> active s1"
    by (auto simp: disable_def then_do_def split: prod.splits sum.splits)
  from assms(2) have "u_disable P s1 =
      (Inr (), s1\<lparr>impl := snd (impl_close P (impl s1)),
                 trace := trace s1 @ close_events P (impl s1)\<rparr>)"
    by (simp add: u_disable_plain)
  with inactive show ?thesis
    by (simp add: disable_def then_do_def close_events_def emit_def)
qed

theorem second_disable_only_closes_witness:
  "\<not> impl_is_running sample_platform (impl (snd (disable sample_platform armed))) \<and>
   disable sample_platform (snd (disable sample_platform armed)) =
     (Inr (), emit (DevClose (Device \<lparr>is_open = False, seconds = 25\<rparr>))
                (snd (disable sample_platform armed)))"
proof -
  let ?s1 = "snd (disable sample_platform armed)"
  have i: "impl ?s1 = Device \<lparr>is_open = False, seconds = 25\<rparr>"
    by (simp add: model_defs sample_defs)
  have stopped: "\<not> impl_is_running sample_platform (impl ?s1)"
    unfolding i by (simp add: sample_platform_def)
  have noop: "impl_close sample_platform (impl ?s1) = (None, impl ?s1)"
    unfolding i by (simp add: sample_platform_def)
  from second_disable_only_closes [OF surjective_pairing stopped] noop
  have "disable sample_platform ?s1 = (Inr (), emit (DevClose (impl ?s1)) ?s1)"
    by blast
  with stopped show ?thesis
    by (simp add: i)
qed


subsection \<open>Reconciliation in keepalive\<close>

text \<open>
  Claim C9. In one \<^verbatim>\<open>keepalive()\<close> call at most one of the three reconciliation
  branches executes (re-activation after mode Off, close and re-activate after a driver
  change, \<^verbatim>\<open>set_timeout\<close> in place). The reconciliation of \<^verbatim>\<open>keepalive\<close> is the
  first branch alone when the mode was switched on, otherwise the second branch alone
  when the driver changed, otherwise the third branch alone, each followed by the
  assignment of \<^verbatim>\<open>active_config\<close> unless the branch raised. The reason: a branch that
  ran \<^verbatim>\<open>_activate\<close> and returned has made \<^verbatim>\<open>active_config\<close> equal to \<^verbatim>\<open>config\<close>, so
  the conditions of the later branches are false.
\<close>

theorem at_most_one_branch:
  "reconcile P s =
     (if mode_switched_on s
        then then_do (mode_branch P) (\<lambda>_ s. (Inr (), s\<lparr>active_config := config s\<rparr>)) s
      else if driver_changed s
        then then_do (driver_branch P) (\<lambda>_ s. (Inr (), s\<lparr>active_config := config s\<rparr>)) s
      else then_do (timeout_branch P) (\<lambda>_ s. (Inr (), s\<lparr>active_config := config s\<rparr>)) s) \<and>
   keepalive_body P s =
     then_do (\<lambda>s. if active s then call_keepalive P s else (Inr (), s))
       (\<lambda>_ s. if active s \<and> config_ne (config s) (active_config s) then
          (if mode_switched_on s
             then then_do (mode_branch P) (\<lambda>_ s. (Inr (), s\<lparr>active_config := config s\<rparr>)) s
           else if driver_changed s
             then then_do (driver_branch P) (\<lambda>_ s. (Inr (), s\<lparr>active_config := config s\<rparr>)) s
           else then_do (timeout_branch P) (\<lambda>_ s. (Inr (), s\<lparr>active_config := config s\<rparr>)) s)
        else (Inr (), s)) s \<and>
   (\<forall>u s1. mode_switched_on s \<and> mode_branch P s = (Inr u, s1) \<longrightarrow>
      active_config s1 = config s1 \<and> \<not> driver_changed s1 \<and> \<not> timeout_changed s1) \<and>
   (\<forall>u s1. driver_changed s \<and> driver_branch P s = (Inr u, s1) \<longrightarrow>
      active_config s1 = config s1 \<and> \<not> timeout_changed s1)"
proof -
  have 1: "keepalive_body P s =
     then_do (\<lambda>s. if active s then call_keepalive P s else (Inr (), s))
       (\<lambda>_ s. if active s \<and> config_ne (config s) (active_config s) then
          (if mode_switched_on s
             then then_do (mode_branch P) (\<lambda>_ s. (Inr (), s\<lparr>active_config := config s\<rparr>)) s
           else if driver_changed s
             then then_do (driver_branch P) (\<lambda>_ s. (Inr (), s\<lparr>active_config := config s\<rparr>)) s
           else then_do (timeout_branch P) (\<lambda>_ s. (Inr (), s\<lparr>active_config := config s\<rparr>)) s)
        else (Inr (), s)) s"
    unfolding keepalive_body_def by (subst reconcile_one_branch) (rule refl)
  have 4: "active_config s1 = config s1 \<and> \<not> driver_changed s1 \<and> \<not> timeout_changed s1"
    if "mode_switched_on s" "mode_branch P s = (Inr u, s1)" for u s1
    using that mode_branch_synced [of P s u s1] synced_unchanged [of s1] by simp
  have 5: "active_config s1 = config s1 \<and> \<not> timeout_changed s1"
    if "driver_changed s" "driver_branch P s = (Inr u, s1)" for u s1
    using that driver_branch_synced [of P s u s1] synced_unchanged [of s1] by simp
  from reconcile_one_branch [of P s] 1 4 5 show ?thesis by blast
qed

theorem at_most_one_branch_witness:
  "\<not> mode_switched_on (armed\<lparr>config := sample_config\<lparr>driver := ''testing'', ttl := 40\<rparr>\<rparr>) \<and>
   driver_changed (armed\<lparr>config := sample_config\<lparr>driver := ''testing'', ttl := 40\<rparr>\<rparr>) \<and>
   timeout_changed (armed\<lparr>config := sample_config\<lparr>driver := ''testing'', ttl := 40\<rparr>\<rparr>) \<and>
   reconcile sample_platform (armed\<lparr>config := sample_config\<lparr>driver := ''testing'', ttl := 40\<rparr>\<rparr>) =
     then_do (driver_branch sample_platform) (\<lambda>_ s. (Inr (), s\<lparr>active_config := config s\<rparr>))
       (armed\<lparr>config := sample_config\<lparr>driver := ''testing'', ttl := 40\<rparr>\<rparr>) \<and>
   trace (snd (reconcile sample_platform
       (armed\<lparr>config := sample_config\<lparr>driver := ''testing'', ttl := 40\<rparr>\<rparr>))) =
     trace armed @
       [DevClose (Device \<lparr>is_open = True, seconds = 25\<rparr>),
        GetImpl ''testing'' Mapping.empty,
        DevOpen (Device \<lparr>is_open = False, seconds = 10\<rparr>),
        DevSetTimeout (Device \<lparr>is_open = True, seconds = 10\<rparr>) 35,
        Log INFO (Activated ''sample'' (Some 35) 25)]"
proof -
  let ?s = "armed\<lparr>config := sample_config\<lparr>driver := ''testing'', ttl := 40\<rparr>\<rparr>"
  have 1: "\<not> mode_switched_on ?s" "driver_changed ?s" "timeout_changed ?s"
    by (simp_all add: model_defs sample_defs)
  have 2: "trace (snd (reconcile sample_platform ?s)) =
     trace armed @
       [DevClose (Device \<lparr>is_open = True, seconds = 25\<rparr>),
        GetImpl ''testing'' Mapping.empty,
        DevOpen (Device \<lparr>is_open = False, seconds = 10\<rparr>),
        DevSetTimeout (Device \<lparr>is_open = True, seconds = 10\<rparr>) 35,
        Log INFO (Activated ''sample'' (Some 35) 25)]"
    by (simp add: model_defs sample_defs)
  from at_most_one_branch [of sample_platform ?s] 1
  have 3: "reconcile sample_platform ?s =
     then_do (driver_branch sample_platform) (\<lambda>_ s. (Inr (), s\<lparr>active_config := config s\<rparr>)) ?s"
    by simp
  from 1 2 3 show ?thesis by blast
qed

text \<open>
  Claim C5 says that \<^verbatim>\<open>active_config\<close> equals \<^verbatim>\<open>config\<close> after every
  \<^verbatim>\<open>keepalive()\<close> that reconciled, so that nothing is retried until the configuration
  changes. The code breaks this when the third branch raises: it calls
  \<^verbatim>\<open>set_timeout\<close> without the \<^verbatim>\<open>has_set_timeout()\<close> check that \<^verbatim>\<open>_set_timeout\<close>
  makes, the null device raises, the assignment of \<^verbatim>\<open>active_config\<close> is skipped, and
  every later \<^verbatim>\<open>keepalive()\<close> repeats the failing call and logs the error again. The
  input: a manager active on the null device (mode Automatic off Linux) whose \<^verbatim>\<open>ttl\<close>
  is reloaded from 30 to 40.
\<close>

theorem failed_set_timeout_keeps_stale_config:
  "active (snd (reload_config null_platform (sample_config\<lparr>ttl := 40\<rparr>) degraded)) \<and>
   config_ne (config (snd (reload_config null_platform (sample_config\<lparr>ttl := 40\<rparr>) degraded)))
     (active_config (snd (reload_config null_platform (sample_config\<lparr>ttl := 40\<rparr>) degraded))) \<and>
   keepalive null_platform (snd (reload_config null_platform (sample_config\<lparr>ttl := 40\<rparr>) degraded)) =
     (Inr (),
      \<lparr>config = sample_config\<lparr>ttl := 40\<rparr>, active_config = sample_config, active = True,
       impl = NullWatchdog,
       trace = [GetImpl ''default'' Mapping.empty, DevOpen NullWatchdog,
                DevKeepalive NullWatchdog, DevSetTimeout NullWatchdog 35,
                Log ERROR (ErrorKeepalive
                  (WatchdogError ''Setting timeout is not supported on NullWatchdog''))]\<rparr>) \<and>
   keepalive null_platform
     (snd (keepalive null_platform
        (snd (reload_config null_platform (sample_config\<lparr>ttl := 40\<rparr>) degraded)))) =
     (Inr (),
      \<lparr>config = sample_config\<lparr>ttl := 40\<rparr>, active_config = sample_config, active = True,
       impl = NullWatchdog,
       trace = [GetImpl ''default'' Mapping.empty, DevOpen NullWatchdog,
                DevKeepalive NullWatchdog, DevSetTimeout NullWatchdog 35,
                Log ERROR (ErrorKeepalive
                  (WatchdogError ''Setting timeout is not supported on NullWatchdog'')),
                DevKeepalive NullWatchdog, DevSetTimeout NullWatchdog 35,
                Log ERROR (ErrorKeepalive
                  (WatchdogError ''Setting timeout is not supported on NullWatchdog''))]\<rparr>)"
  by (simp add: model_defs sample_defs)

text \<open>
  Claim C3, as stated: after a reload with a changed driver while active, the next
  \<^verbatim>\<open>keepalive()\<close> performs exactly one close of the old device and then one
  construction and open of the new one. It fails for a manager that was switched off
  while active (it holds the null device, and \<^verbatim>\<open>active_config\<close> has mode Off): the
  next \<^verbatim>\<open>keepalive()\<close> takes the first branch, which constructs and opens the new
  device and closes nothing.
\<close>

theorem switch_without_close_counterexample:
  "active (snd (reload_config sample_platform (sample_config\<lparr>mode := MODE_OFF\<rparr>) armed)) \<and>
   mode (sample_config\<lparr>driver := ''testing''\<rparr>) \<noteq> MODE_OFF \<and>
   driver (sample_config\<lparr>driver := ''testing''\<rparr>) \<noteq>
     driver (active_config
       (snd (reload_config sample_platform (sample_config\<lparr>mode := MODE_OFF\<rparr>) armed))) \<and>
   trace (snd (keepalive sample_platform
     (snd (reload_config sample_platform (sample_config\<lparr>driver := ''testing''\<rparr>)
        (snd (reload_config sample_platform (sample_config\<lparr>mode := MODE_OFF\<rparr>) armed)))))) =
   trace (snd (reload_config sample_platform (sample_config\<lparr>mode := MODE_OFF\<rparr>) armed)) @
     [DevKeepalive NullWatchdog, GetImpl ''testing'' Mapping.empty,
      DevOpen (Device \<lparr>is_open = False, seconds = 10\<rparr>),
      DevSetTimeout (Device \<lparr>is_open = True, seconds = 10\<rparr>) 25,
      Log INFO (Activated ''sample'' (Some 25) 15)]"
  by (simp add: model_defs sample_defs)

text \<open>
  Claim C3, amended: such a reload changes \<^verbatim>\<open>config\<close> only. The switch happens at the
  next \<^verbatim>\<open>keepalive()\<close> whose device keepalive succeeds. When the mode of
  \<^verbatim>\<open>active_config\<close> is not Off and the disable sequence reaches its close (the device
  is not running or can be disabled, or the final keepalive and \<^verbatim>\<open>get_timeout\<close>
  succeed), that call closes the old device once, then calls \<^verbatim>\<open>get_impl\<close> once and
  \<^verbatim>\<open>open\<close> once, on the new device or on the null device when the new timing slack is
  negative. When the mode of \<^verbatim>\<open>active_config\<close> is Off, it calls \<^verbatim>\<open>get_impl\<close> and
  \<^verbatim>\<open>open\<close> once and closes nothing before. The only event of this kind that may
  follow is the close by which \<^verbatim>\<open>_set_timeout\<close> gives up a device whose timeout is
  shorter than \<^verbatim>\<open>loop_wait\<close>. A \<^verbatim>\<open>keepalive()\<close> whose device keepalive raises
  switches nothing and leaves the change pending.
\<close>

theorem deferred_driver_switch:
  assumes "active s" and "mode new \<noteq> MODE_OFF"
    and "driver new \<noteq> driver (active_config s) \<or>
         driver_config new \<noteq> driver_config (active_config s)"
  shows "reload_config P new s = (Inr (), s\<lparr>config := new\<rparr>) \<and>
    (\<forall>i1. impl_keepalive P (impl s) = (None, i1) \<and> mode (active_config s) \<noteq> MODE_OFF \<and>
        (\<not> impl_is_running P i1 \<or> impl_can_be_disabled P i1 = Inr True) \<longrightarrow>
        (\<exists>cl. lifecycle (trace (snd (keepalive P (s\<lparr>config := new\<rparr>)))) =
                lifecycle (trace s) @ DevClose i1 # switch_events P new @ cl \<and>
              at_most_a_close cl)) \<and>
    (\<forall>i1 i2 t. impl_keepalive P (impl s) = (None, i1) \<and> mode (active_config s) \<noteq> MODE_OFF \<and>
        impl_is_running P i1 \<and> impl_can_be_disabled P i1 = Inr False \<and>
        impl_keepalive P i1 = (None, i2) \<and> impl_get_timeout P i2 = Inr t \<longrightarrow>
        (\<exists>cl. lifecycle (trace (snd (keepalive P (s\<lparr>config := new\<rparr>)))) =
                lifecycle (trace s) @ DevClose i2 # switch_events P new @ cl \<and>
              at_most_a_close cl)) \<and>
    (\<forall>i1. impl_keepalive P (impl s) = (None, i1) \<and> mode (active_config s) = MODE_OFF \<longrightarrow>
        (\<exists>cl. lifecycle (trace (snd (keepalive P (s\<lparr>config := new\<rparr>)))) =
                lifecycle (trace s) @ switch_events P new @ cl \<and>
              at_most_a_close cl)) \<and>
    (\<forall>e i1. impl_keepalive P (impl s) = (Some e, i1) \<longrightarrow>
        lifecycle (trace (snd (keepalive P (s\<lparr>config := new\<rparr>)))) = lifecycle (trace s) \<and>
        active_config (snd (keepalive P (s\<lparr>config := new\<rparr>))) = active_config s \<and>
        config (snd (keepalive P (s\<lparr>config := new\<rparr>))) = new)"
proof -
  let ?s0 = "s\<lparr>config := new\<rparr>"
  have reload: "reload_config P new s = (Inr (), ?s0)"
    using assms(1,2) by (rule reload_deferred)
  have ne: "config_ne (config ?s0) (active_config ?s0)"
    using assms(3) by (auto simp: config_ne_def config_eq_def)
  have act: "active ?s0" using assms(1) by simp
  have rec: "lifecycle (trace (snd (keepalive P ?s0))) =
      lifecycle (trace (snd (reconcile P ((emit (DevKeepalive (impl s)) ?s0)\<lparr>impl := i1\<rparr>))))"
    if "impl_keepalive P (impl s) = (None, i1)" for i1
    using keepalive_lifecycle_reconcile [OF act ne, of P i1] that by simp
  have switch: "\<exists>cl. lifecycle (trace (snd (keepalive P ?s0))) =
                lifecycle (trace s) @ DevClose i # switch_events P new @ cl \<and> at_most_a_close cl"
    if k: "impl_keepalive P (impl s) = (None, i1)" and on: "mode (active_config s) \<noteq> MODE_OFF"
      and d: "u_disable P ((emit (DevKeepalive (impl s)) ?s0)\<lparr>impl := i1\<rparr>) = (Inr (), s1)"
      and l: "lifecycle (trace s1) = lifecycle (trace s) @ [DevClose i]" for i1 i s1
  proof -
    let ?s2 = "(emit (DevKeepalive (impl s)) ?s0)\<lparr>impl := i1\<rparr>"
    have dc: "driver_changed ?s2"
      using assms(3) by (simp add: driver_changed_def emit_def)
    have mb: "mode_branch P ?s2 = (Inr (), ?s2)"
      using on by (simp add: mode_branch_def mode_switched_on_def emit_def)
    have l2: "lifecycle (trace s1) = lifecycle (trace ?s2) @ [DevClose i]"
      using l by (simp add: emit_def)
    obtain r s3 where db: "driver_branch P ?s2 = (r, s3)"
      by (cases "driver_branch P ?s2")
    from driver_branch_lifecycle [OF dc d l2 db] reconcile_after_switch [OF mb db dc] rec [OF k]
    show ?thesis
      by (auto simp: switch_events_def emit_def)
  qed
  have plain: "\<exists>cl. lifecycle (trace (snd (keepalive P ?s0))) =
                lifecycle (trace s) @ DevClose i1 # switch_events P new @ cl \<and> at_most_a_close cl"
    if "impl_keepalive P (impl s) = (None, i1)" "mode (active_config s) \<noteq> MODE_OFF"
      "\<not> impl_is_running P i1 \<or> impl_can_be_disabled P i1 = Inr True" for i1
  proof -
    let ?s2 = "(emit (DevKeepalive (impl s)) ?s0)\<lparr>impl := i1\<rparr>"
    from that(3) have d: "u_disable P ?s2 =
        (Inr (), ?s2\<lparr>impl := snd (impl_close P (impl ?s2)),
                      trace := trace ?s2 @ close_events P (impl ?s2)\<rparr>)"
      by (intro u_disable_plain) simp
    show ?thesis
      by (rule switch [OF that(1,2) d]) (simp add: lifecycle_close_events emit_def)
  qed
  have final: "\<exists>cl. lifecycle (trace (snd (keepalive P ?s0))) =
                lifecycle (trace s) @ DevClose i2 # switch_events P new @ cl \<and> at_most_a_close cl"
    if "impl_keepalive P (impl s) = (None, i1)" "mode (active_config s) \<noteq> MODE_OFF"
      "impl_is_running P i1" "impl_can_be_disabled P i1 = Inr False"
      "impl_keepalive P i1 = (None, i2)" "impl_get_timeout P i2 = Inr t" for i1 i2 t
  proof -
    let ?s2 = "(emit (DevKeepalive (impl s)) ?s0)\<lparr>impl := i1\<rparr>"
    from that(3-6) have d: "u_disable P ?s2 =
        (Inr (), ?s2\<lparr>impl := snd (impl_close P i2),
               trace := trace ?s2 @ [DevKeepalive (impl ?s2), Log WARNING (CantBeDisabledReboot t)]
                          @ close_events P i2\<rparr>)"
      by (intro u_disable_final_keepalive) simp_all
    show ?thesis
      by (rule switch [OF that(1,2) d]) (simp add: lifecycle_close_events emit_def)
  qed
  have off: "\<exists>cl. lifecycle (trace (snd (keepalive P ?s0))) =
                lifecycle (trace s) @ switch_events P new @ cl \<and> at_most_a_close cl"
    if k: "impl_keepalive P (impl s) = (None, i1)" and "mode (active_config s) = MODE_OFF" for i1
  proof -
    let ?s2 = "(emit (DevKeepalive (impl s)) ?s0)\<lparr>impl := i1\<rparr>"
    have on: "mode_switched_on ?s2"
      using that(2) assms(2) by (simp add: mode_switched_on_def emit_def)
    obtain r s3 where mb: "mode_branch P ?s2 = (r, s3)"
      by (cases "mode_branch P ?s2")
    from mode_branch_lifecycle [OF on mb] reconcile_after_mode [OF on mb] rec [OF k]
    show ?thesis
      by (auto simp: switch_events_def emit_def)
  qed
  have failed: "lifecycle (trace (snd (keepalive P ?s0))) = lifecycle (trace s) \<and>
        active_config (snd (keepalive P ?s0)) = active_config s \<and>
        config (snd (keepalive P ?s0)) = new"
    if "impl_keepalive P (impl s) = (Some e, i1)" for e i1
    using keepalive_failed_device [OF act, of P e i1] that by simp
  from reload plain final off failed show ?thesis
    by blast
qed


theorem deferred_driver_switch_witness:
  "active armed \<and> mode (sample_config\<lparr>driver := ''testing''\<rparr>) \<noteq> MODE_OFF \<and>
   driver (sample_config\<lparr>driver := ''testing''\<rparr>) \<noteq> driver (active_config armed) \<and>
   reload_config sample_platform (sample_config\<lparr>driver := ''testing''\<rparr>) armed =
     (Inr (), armed\<lparr>config := sample_config\<lparr>driver := ''testing''\<rparr>\<rparr>) \<and>
   (\<exists>cl. lifecycle (trace (snd (keepalive sample_platform
              (armed\<lparr>config := sample_config\<lparr>driver := ''testing''\<rparr>\<rparr>)))) =
          lifecycle (trace armed) @ DevClose (Device \<lparr>is_open = True, seconds = 25\<rparr>) #
            switch_events sample_platform (sample_config\<lparr>driver := ''testing''\<rparr>) @ cl \<and>
          at_most_a_close cl) \<and>
   trace (snd (keepalive sample_platform
            (armed\<lparr>config := sample_config\<lparr>driver := ''testing''\<rparr>\<rparr>))) =
     trace armed @
       [DevKeepalive (Device \<lparr>is_open = True, seconds = 25\<rparr>),
        DevClose (Device \<lparr>is_open = True, seconds = 25\<rparr>),
        GetImpl ''testing'' Mapping.empty,
        DevOpen (Device \<lparr>is_open = False, seconds = 10\<rparr>),
        DevSetTimeout (Device \<lparr>is_open = True, seconds = 10\<rparr>) 25,
        Log INFO (Activated ''sample'' (Some 25) 15)]"
proof -
  let ?new = "sample_config\<lparr>driver := ''testing''\<rparr>"
  let ?d = "Device \<lparr>is_open = True, seconds = 25\<rparr>"
  have a: "active armed" by (simp add: model_defs sample_defs)
  have m: "mode ?new \<noteq> MODE_OFF" by (simp add: sample_config_def)
  have dr: "driver ?new \<noteq> driver (active_config armed) \<or>
      driver_config ?new \<noteq> driver_config (active_config armed)"
    by (simp add: model_defs sample_defs)
  have i: "impl armed = ?d" by (simp add: model_defs sample_defs)
  have k: "impl_keepalive sample_platform (impl armed) = (None, ?d) \<and>
      mode (active_config armed) \<noteq> MODE_OFF \<and>
      (\<not> impl_is_running sample_platform ?d \<or>
       impl_can_be_disabled sample_platform ?d = Inr True)"
    unfolding i by (simp add: model_defs sample_defs)
  note t = deferred_driver_switch [OF a m dr, of sample_platform]
  from t have 1: "reload_config sample_platform ?new armed = (Inr (), armed\<lparr>config := ?new\<rparr>)"
    by blast
  from t k have 2: "\<exists>cl. lifecycle (trace (snd (keepalive sample_platform (armed\<lparr>config := ?new\<rparr>)))) =
          lifecycle (trace armed) @ DevClose ?d # switch_events sample_platform ?new @ cl \<and>
          at_most_a_close cl"
    by blast
  have 3: "trace (snd (keepalive sample_platform (armed\<lparr>config := ?new\<rparr>))) =
     trace armed @
       [DevKeepalive ?d, DevClose ?d, GetImpl ''testing'' Mapping.empty,
        DevOpen (Device \<lparr>is_open = False, seconds = 10\<rparr>),
        DevSetTimeout (Device \<lparr>is_open = True, seconds = 10\<rparr>) 25,
        Log INFO (Activated ''sample'' (Some 25) 15)]"
    by (simp add: model_defs sample_defs)
  have 4: "driver ?new \<noteq> driver (active_config armed)"
    by (simp add: model_defs sample_defs)
  from a m 4 1 2 3 show ?thesis by blast
qed


end
